theory Spec2Isabelle
  imports Main
begin

section \<open>Message parts and the A2A part normaliser\<close>

text \<open>
  A message part is a JavaScript object with a \<open>type\<close> tag. Text and reasoning parts carry
  a \<open>text\<close> property; structural parts (\<open>step-start\<close>, \<open>step-end\<close>) and file parts do
  not, which reads as \<open>undefined\<close> (\<open>None\<close> here). Every other property of the object
  (url, mediaType, state, ...) is kept in \<open>part_rest\<close> as key/value pairs.
\<close>

record part =
  part_type :: string
  part_text :: "string option"
  part_rest :: "(string \<times> string) list"

text \<open>
  \<open>Array.prototype.join('')\<close> on the mapped \<open>p.text\<close> values: an \<open>undefined\<close>
  element contributes the empty string, and nothing is put between the elements.
\<close>

definition joinEmpty :: "string option list \<Rightarrow> string" where
  "joinEmpty xs = concat (map (\<lambda>x. case x of None \<Rightarrow> [] | Some s \<Rightarrow> s) xs)"

text \<open>
  \<open>route.ts\<close>, \<open>normaliseA2AParts\<close>: filter on \<open>p.type === 'text'\<close>, map to \<open>p.text\<close>,
  join with the empty separator; a non-empty (truthy) string gives the one-element array
  \<open>[{ type: 'text', text }]\<close>, the empty string gives \<open>[]\<close>.
\<close>

definition normaliseA2AParts :: "part list \<Rightarrow> part list" where
  "normaliseA2AParts parts =
     (let text = joinEmpty (map part_text (filter (\<lambda>p. part_type p = ''text'') parts))
      in if text \<noteq> []
         then [\<lparr>part_type = ''text'', part_text = Some text, part_rest = []\<rparr>]
         else [])"

subsection \<open>The normaliser as the specification words it\<close>

text \<open>
  The specification describes the result fragment by fragment: a fragment that is not a
  text fragment is discarded, the text of a text fragment is appended in emission order.
\<close>

primrec spec_text_concat :: "part list \<Rightarrow> string" where
  "spec_text_concat [] = []"
| "spec_text_concat (p # ps) =
     (if part_type p = ''text''
      then (case part_text p of None \<Rightarrow> [] | Some s \<Rightarrow> s) @ spec_text_concat ps
      else spec_text_concat ps)"

definition spec_normalize :: "part list \<Rightarrow> part list" where
  "spec_normalize raw =
     (if spec_text_concat raw = [] then []
      else [\<lparr>part_type = ''text'', part_text = Some (spec_text_concat raw), part_rest = []\<rparr>])"

section \<open>Errors, sessions and the message store\<close>

text \<open>
  \<open>new ChatSDKError(code).toResponse()\<close> is the structured error response of the given
  code; the five codes \<open>route.ts\<close> uses are \<open>bad_request:api\<close>, \<open>unauthorized:chat\<close>,
  \<open>forbidden:chat\<close>, \<open>rate_limit:chat\<close> and \<open>offline:chat\<close>.
\<close>

datatype errorCode =
  bad_request_api | unauthorized_chat | forbidden_chat | rate_limit_chat | offline_chat

text \<open>
  What can be thrown inside a handler: the \<open>TypeError\<close> of reading a property of
  \<open>undefined\<close> or \<open>null\<close>, and a \<open>ChatSDKError\<close> with its code. The collaborators are
  taken as answering, as the specification has them (durable persistence), so in this
  model the only exception that arises is the \<open>TypeError\<close>.
\<close>

datatype exn = TypeError | ChatSDKError errorCode

record user =
  user_id :: string
  user_type :: string

text \<open>\<open>auth()\<close> answers a session or \<open>null\<close>; \<open>session?.user\<close> may be absent.\<close>

record session =
  session_user :: "user option"

definition sessionUser :: "session option \<Rightarrow> user option" where
  "sessionUser s = (case s of None \<Rightarrow> None | Some x \<Rightarrow> session_user x)"

record chat =
  chat_id :: string
  chat_userId :: string
  chat_title :: string
  chat_visibility :: string

text \<open>A message as the client and the stream library hand it over (\<open>ChatMessage\<close>).\<close>

record chatMessage =
  msg_id :: string
  msg_role :: string
  msg_parts :: "part list"

text \<open>A persisted turn, with the fields \<open>saveMessages\<close> is given in \<open>route.ts\<close>.\<close>

record dbMessage =
  row_chatId :: string
  row_id :: string
  row_role :: string
  row_parts :: "part list"
  row_attachments :: "string list"
  row_createdAt :: int

record db =
  chats :: "chat list"
  messages :: "dbMessage list"
  streams :: "(string \<times> string) list"

text \<open>
  Modelled from the spec: the queries of \<open>@/lib/db/queries\<close> are not among the sources.
  The specification gives the message store as a durable collaborator queryable by
  conversation id, with \<open>getConversation\<close>, \<open>createConversation\<close>, \<open>getTurns\<close>,
  \<open>appendTurns\<close>, \<open>countRecentTurns(userId, windowHours)\<close> and \<open>createStreamSession\<close>,
  and a deletion that removes a conversation and its turns and returns the deleted record.
  An absent conversation reads as \<open>None\<close>: \<open>POST\<close> tests \<open>!chat\<close> on the answer.
\<close>

definition getChatById :: "db \<Rightarrow> string \<Rightarrow> chat option" where
  "getChatById d i = find (\<lambda>c. chat_id c = i) (chats d)"

definition saveChat :: "db \<Rightarrow> chat \<Rightarrow> db" where
  "saveChat d c = d\<lparr>chats := chats d @ [c]\<rparr>"

definition getMessagesByChatId :: "db \<Rightarrow> string \<Rightarrow> dbMessage list" where
  "getMessagesByChatId d i = filter (\<lambda>m. row_chatId m = i) (messages d)"

definition saveMessages :: "db \<Rightarrow> dbMessage list \<Rightarrow> db" where
  "saveMessages d ms = d\<lparr>messages := messages d @ ms\<rparr>"

definition createStreamId :: "db \<Rightarrow> string \<Rightarrow> string \<Rightarrow> db" where
  "createStreamId d streamId chatId = d\<lparr>streams := streams d @ [(streamId, chatId)]\<rparr>"

definition deleteChatById :: "db \<Rightarrow> string \<Rightarrow> chat option \<times> db" where
  "deleteChatById d i =
     (getChatById d i,
      d\<lparr>chats := filter (\<lambda>c. chat_id c \<noteq> i) (chats d),
        messages := filter (\<lambda>m. row_chatId m \<noteq> i) (messages d)\<rparr>)"

text \<open>
  Modelled from the spec: the caller's rolling message count, the user turns of the
  caller's conversations created within the trailing \<open>differenceInHours\<close> hours of \<open>now\<close>
  (times in milliseconds).
\<close>

definition getMessageCountByUserId :: "db \<Rightarrow> string \<Rightarrow> int \<Rightarrow> int \<Rightarrow> int" where
  "getMessageCountByUserId d uid differenceInHours now =
     int (length (filter
       (\<lambda>m. row_role m = ''user''
          \<and> now - differenceInHours * 3600000 \<le> row_createdAt m
          \<and> (case getChatById d (row_chatId m) of
               None \<Rightarrow> False
             | Some c \<Rightarrow> chat_userId c = uid))
       (messages d)))"

section \<open>The process-wide resumable stream context\<close>

text \<open>
  \<open>createResumableStreamContext\<close> belongs to the \<open>resumable-stream\<close> package. One call
  either returns a context or throws a value whose \<open>message\<close> property is a string or is
  missing; the outcome of the call is an argument of the model.
\<close>

datatype 'c createOutcome = Returns 'c | Throws "string option"

datatype effect =
  Call_createResumableStreamContext | Console_log string | Console_error string

text \<open>\<open>String.prototype.includes\<close>: the second string occurs in the first.\<close>

primrec str_includes :: "string \<Rightarrow> string \<Rightarrow> bool" where
  "str_includes [] t = (t = [])"
| "str_includes (x # xs) t = (take (length t) (x # xs) = t \<or> str_includes xs t)"

text \<open>
  \<open>route.ts\<close>, \<open>getStreamContext\<close>, on the module variable \<open>globalStreamContext\<close>
  (the second argument). The result is what the call returns or raises, the new value of
  the variable, and what the call did. The \<open>catch\<close> block reads \<open>error.message.includes\<close>,
  which raises a \<open>TypeError\<close> out of the function when the thrown value has no message.
  Nothing is assigned in the \<open>catch\<close> block.
\<close>

definition getStreamContext ::
  "'c createOutcome \<Rightarrow> 'c option \<Rightarrow> (exn + 'c option) \<times> 'c option \<times> effect list" where
  "getStreamContext create g =
     (case g of
        Some c \<Rightarrow> (Inr (Some c), Some c, [])
      | None \<Rightarrow>
          (case create of
             Returns c \<Rightarrow> (Inr (Some c), Some c, [Call_createResumableStreamContext])
           | Throws None \<Rightarrow> (Inl TypeError, None, [Call_createResumableStreamContext])
           | Throws (Some message) \<Rightarrow>
               (Inr None, None,
                [Call_createResumableStreamContext,
                 if str_includes message ''REDIS_URL''
                 then Console_log '' > Resumable streams are disabled due to missing REDIS_URL''
                 else Console_error message])))"

text \<open>
  A process lifetime: successive calls of \<open>getStreamContext\<close>, one creation outcome for
  each, threading the module variable and collecting what the calls did.
\<close>

fun getStreamContext_calls :: "'c createOutcome list \<Rightarrow> 'c option \<Rightarrow> 'c option \<times> effect list" where
  "getStreamContext_calls [] g = (g, [])"
| "getStreamContext_calls (c # cs) g =
     (case getStreamContext c g of
        (r, g', es) \<Rightarrow>
          (case getStreamContext_calls cs g' of (g'', es') \<Rightarrow> (g'', es @ es')))"

section \<open>The handlers\<close>

record entitlements =
  maxMessagesPerDay :: int

record postRequestBody =
  body_id :: string
  body_message :: chatMessage
  body_selectedChatModel :: string
  body_selectedVisibilityType :: string

text \<open>
  What the collaborators of one \<open>POST\<close> request answer: the parsed and validated body
  (\<open>None\<close> when \<open>request.json()\<close> or the schema throws), the session of \<open>auth()\<close>, the clock
  of \<open>new Date()\<close>, the table \<open>entitlementsByUserType\<close> (of \<open>@/lib/ai/entitlements\<close>, not
  among the sources), the title generator, \<open>convertToUIMessages\<close>, the identifier of
  \<open>generateUUID()\<close>, and the outcome of \<open>createResumableStreamContext\<close>.
\<close>

record 'c env =
  env_body :: "postRequestBody option"
  env_session :: "session option"
  env_now :: int
  env_entitlementsByUserType :: "string \<Rightarrow> entitlements option"
  env_generateTitleFromUserMessage :: "chatMessage \<Rightarrow> string"
  env_convertToUIMessages :: "dbMessage list \<Rightarrow> chatMessage list"
  env_generateUUID :: string
  env_createResumableStreamContext :: "'c createOutcome"

text \<open>The state a request works on: the store and the module variable.\<close>

record 'c world =
  world_db :: db
  globalStreamContext :: "'c option"

text \<open>
  The stream \<open>createUIMessageStream\<close> is asked for: the model, the messages, the active
  tools and the step bound. Its events come from the \<open>ai\<close> package and the model backend.
\<close>

record uiStream =
  stream_model :: string
  stream_messages :: "chatMessage list"
  stream_activeTools :: "string list"
  stream_maxSteps :: nat

datatype body = PlainStream uiStream | ResumableStream string uiStream

datatype response =
  ErrorResponse errorCode
| StreamResponse body
| JsonResponse "chat option" nat

text \<open>\<open>route.ts\<close>, \<open>POST\<close>, lines 153 to 223: the stream of the request.\<close>

definition POST_createUIMessageStream :: "'c env \<Rightarrow> postRequestBody \<Rightarrow> db \<Rightarrow> uiStream" where
  "POST_createUIMessageStream e b d =
     \<lparr>stream_model = body_selectedChatModel b,
      stream_messages =
        env_convertToUIMessages e (getMessagesByChatId d (body_id b)) @ [body_message b],
      stream_activeTools =
        (if body_selectedChatModel b = ''chat-model''
         then [''getWeather'', ''createDocument'', ''updateDocument'', ''requestSuggestions'']
         else []),
      stream_maxSteps = 5\<rparr>"

text \<open>
  \<open>route.ts\<close>, \<open>POST\<close>, lines 149 to 276, once the conversation is resolved: the user
  turn is saved (through \<open>normaliseA2AParts\<close> for the model \<open>a2a-model\<close>), the stream
  session is recorded, and the response wraps the stream, resumable when
  \<open>getStreamContext()\<close> answers a context and plain otherwise. An exception leaves the
  writes made before it in place.
\<close>

definition POST_stream :: "'c env \<Rightarrow> postRequestBody \<Rightarrow> db \<Rightarrow> 'c option \<Rightarrow> (exn + response) \<times> 'c world" where
  "POST_stream e b d g =
     (let stream = POST_createUIMessageStream e b d;
          cleaned = (if body_selectedChatModel b = ''a2a-model''
                     then normaliseA2AParts (msg_parts (body_message b))
                     else msg_parts (body_message b));
          d2 = saveMessages d
                 [\<lparr>row_chatId = body_id b, row_id = msg_id (body_message b),
                   row_role = ''user'', row_parts = cleaned, row_attachments = [],
                   row_createdAt = env_now e\<rparr>];
          streamId = env_generateUUID e;
          d3 = createStreamId d2 streamId (body_id b)
      in case getStreamContext (env_createResumableStreamContext e) g of
           (r, g', es) \<Rightarrow>
             (case r of
                Inl x \<Rightarrow> Inl x
              | Inr None \<Rightarrow> Inr (StreamResponse (PlainStream stream))
              | Inr (Some c) \<Rightarrow> Inr (StreamResponse (ResumableStream streamId stream)),
              \<lparr>world_db = d3, globalStreamContext = g'\<rparr>))"

text \<open>
  \<open>route.ts\<close>, \<open>POST\<close>, the guarded block of lines 90 to 276: session, rate gate,
  conversation lookup or creation, ownership, then the stream.
\<close>

definition POST_try :: "'c env \<Rightarrow> postRequestBody \<Rightarrow> 'c world \<Rightarrow> (exn + response) \<times> 'c world" where
  "POST_try e b w =
     (case sessionUser (env_session e) of
        None \<Rightarrow> (Inr (ErrorResponse unauthorized_chat), w)
      | Some u \<Rightarrow>
          (let messageCount = getMessageCountByUserId (world_db w) (user_id u) 24 (env_now e)
           in case env_entitlementsByUserType e (user_type u) of
                None \<Rightarrow> (Inl TypeError, w)
              | Some ent \<Rightarrow>
                  if messageCount > maxMessagesPerDay ent
                  then (Inr (ErrorResponse rate_limit_chat), w)
                  else
                    (case getChatById (world_db w) (body_id b) of
                       None \<Rightarrow>
                         POST_stream e b
                           (saveChat (world_db w)
                              \<lparr>chat_id = body_id b, chat_userId = user_id u,
                               chat_title = env_generateTitleFromUserMessage e (body_message b),
                               chat_visibility = body_selectedVisibilityType b\<rparr>)
                           (globalStreamContext w)
                     | Some c \<Rightarrow>
                         if chat_userId c \<noteq> user_id u
                         then (Inr (ErrorResponse forbidden_chat), w)
                         else POST_stream e b (world_db w) (globalStreamContext w))))"

text \<open>
  \<open>route.ts\<close>, \<open>POST\<close>: a body that does not parse is \<open>bad_request:api\<close>; in the
  \<open>catch\<close> of the second block a \<open>ChatSDKError\<close> answers its own response and any other
  exception becomes \<open>offline:chat\<close>.
\<close>

definition POST :: "'c env \<Rightarrow> 'c world \<Rightarrow> response \<times> 'c world" where
  "POST e w =
     (case env_body e of
        None \<Rightarrow> (ErrorResponse bad_request_api, w)
      | Some b \<Rightarrow>
          (case POST_try e b w of
             (Inl (ChatSDKError c), w') \<Rightarrow> (ErrorResponse c, w')
           | (Inl TypeError, w') \<Rightarrow> (ErrorResponse offline_chat, w')
           | (Inr r, w') \<Rightarrow> (r, w')))"

text \<open>
  \<open>route.ts\<close>, \<open>POST\<close>, \<open>onFinish\<close>: every message the stream library hands over is
  saved as a turn of the conversation, its parts through \<open>normaliseA2AParts\<close> for the model
  \<open>a2a-model\<close> and as they are for any other model.
\<close>

definition onFinish :: "string \<Rightarrow> string \<Rightarrow> int \<Rightarrow> chatMessage list \<Rightarrow> db \<Rightarrow> db" where
  "onFinish selectedChatModel chatId now msgs d =
     saveMessages d
       (map (\<lambda>message.
               \<lparr>row_chatId = chatId, row_id = msg_id message, row_role = msg_role message,
                row_parts = (if selectedChatModel = ''a2a-model''
                             then normaliseA2AParts (msg_parts message)
                             else msg_parts message),
                row_attachments = [], row_createdAt = now\<rparr>)
          msgs)"

text \<open>
  \<open>route.ts\<close>, \<open>DELETE\<close>, on the \<open>id\<close> search parameter (\<open>None\<close> when absent) and the
  session. The handler catches nothing: reading \<open>chat.userId\<close> of an absent conversation
  raises out of it.
\<close>

definition DELETE :: "string option \<Rightarrow> session option \<Rightarrow> db \<Rightarrow> (exn + response) \<times> db" where
  "DELETE idParam s d =
     (case idParam of
        None \<Rightarrow> (Inr (ErrorResponse bad_request_api), d)
      | Some i \<Rightarrow>
          if i = [] then (Inr (ErrorResponse bad_request_api), d)
          else
            (case sessionUser s of
               None \<Rightarrow> (Inr (ErrorResponse unauthorized_chat), d)
             | Some u \<Rightarrow>
                 (case getChatById d i of
                    None \<Rightarrow> (Inl TypeError, d)
                  | Some c \<Rightarrow>
                      if chat_userId c \<noteq> user_id u
                      then (Inr (ErrorResponse forbidden_chat), d)
                      else (case deleteChatById d i of
                              (deletedChat, d') \<Rightarrow> (Inr (JsonResponse deletedChat 200), d')))))"

section \<open>Notions of the specification and of the statements\<close>

text \<open>
  The specification's structural markers are the parts of type \<open>step-start\<close> and
  \<open>step-end\<close>; its visible content is the text of the \<open>text\<close> and \<open>reasoning\<close> parts, in
  order.
\<close>

definition is_step_marker :: "part \<Rightarrow> bool" where
  "is_step_marker p = (part_type p = ''step-start'' \<or> part_type p = ''step-end'')"

definition visible_content :: "part list \<Rightarrow> string" where
  "visible_content ps =
     concat (map (\<lambda>p. case part_text p of None \<Rightarrow> [] | Some t \<Rightarrow> t)
       (filter (\<lambda>p. part_type p = ''text'' \<or> part_type p = ''reasoning'') ps))"

text \<open>A creation that fails by throwing an error with a message.\<close>

definition throwsError :: "'c createOutcome \<Rightarrow> bool" where
  "throwsError out = (case out of Throws (Some m) \<Rightarrow> True | _ \<Rightarrow> False)"

text \<open>How often \<open>createResumableStreamContext\<close> was called.\<close>

definition creations :: "effect list \<Rightarrow> nat" where
  "creations es = length (filter (\<lambda>x. x = Call_createResumableStreamContext) es)"

text \<open>
  The store once \<open>POST\<close> has resolved the conversation: a new conversation of the caller
  when the id is unknown, the store as it is otherwise.
\<close>

definition resolvedDb :: "'c env \<Rightarrow> postRequestBody \<Rightarrow> user \<Rightarrow> db \<Rightarrow> db" where
  "resolvedDb e b u d =
     (case getChatById d (body_id b) of
        None \<Rightarrow>
          saveChat d
            \<lparr>chat_id = body_id b, chat_userId = user_id u,
             chat_title = env_generateTitleFromUserMessage e (body_message b),
             chat_visibility = body_selectedVisibilityType b\<rparr>
      | Some c \<Rightarrow> d)"

text \<open>
  A request that passes every gate of \<open>POST\<close>: the body parses, the caller \<open>u\<close> is
  authenticated and has an entitlement, the message count does not exceed the quota, and
  the conversation is new or owned by the caller.
\<close>

definition admitted :: "'c env \<Rightarrow> postRequestBody \<Rightarrow> user \<Rightarrow> 'c world \<Rightarrow> bool" where
  "admitted e b u w =
     (env_body e = Some b \<and> sessionUser (env_session e) = Some u
      \<and> (case env_entitlementsByUserType e (user_type u) of
            None \<Rightarrow> False
          | Some ent \<Rightarrow>
              \<not> maxMessagesPerDay ent
                  < getMessageCountByUserId (world_db w) (user_id u) 24 (env_now e))
      \<and> (case getChatById (world_db w) (body_id b) of
            None \<Rightarrow> True
          | Some c \<Rightarrow> chat_userId c = user_id u))"

subsection \<open>A small store and a request, for concrete runs\<close>

text \<open>
  One conversation \<open>c1\<close> of \<open>alice\<close> holding one user turn, a quota of one message a day
  for the tier \<open>regular\<close>, and a request on \<open>c1\<close> at a time when that turn is inside the
  24 hour window and no resumable stream context can be created.
\<close>

definition alice :: user where
  "alice = \<lparr>user_id = ''alice'', user_type = ''regular''\<rparr>"

definition bob :: user where
  "bob = \<lparr>user_id = ''bob'', user_type = ''regular''\<rparr>"

definition example_db :: db where
  "example_db =
     \<lparr>chats = [\<lparr>chat_id = ''c1'', chat_userId = ''alice'', chat_title = ''Hello'',
                chat_visibility = ''private''\<rparr>],
      messages = [\<lparr>row_chatId = ''c1'', row_id = ''m1'', row_role = ''user'',
                   row_parts = [\<lparr>part_type = ''text'', part_text = Some ''hi'', part_rest = []\<rparr>],
                   row_attachments = [], row_createdAt = 1000\<rparr>],
      streams = []\<rparr>"

definition example_env :: "user \<Rightarrow> string \<Rightarrow> part list \<Rightarrow> unit env" where
  "example_env u model ps =
     \<lparr>env_body = Some \<lparr>body_id = ''c1'',
                       body_message = \<lparr>msg_id = ''m2'', msg_role = ''user'', msg_parts = ps\<rparr>,
                       body_selectedChatModel = model,
                       body_selectedVisibilityType = ''private''\<rparr>,
      env_session = Some \<lparr>session_user = Some u\<rparr>,
      env_now = 2000,
      env_entitlementsByUserType =
        (\<lambda>t. if t = ''regular'' then Some \<lparr>maxMessagesPerDay = 1\<rparr> else None),
      env_generateTitleFromUserMessage = (\<lambda>m. ''New chat''),
      env_convertToUIMessages =
        map (\<lambda>r. \<lparr>msg_id = row_id r, msg_role = row_role r, msg_parts = row_parts r\<rparr>),
      env_generateUUID = ''s1'',
      env_createResumableStreamContext = Throws (Some ''REDIS_URL environment variable is not set'')\<rparr>"


section \<open>Properties of the normaliser\<close>

lemma joinEmpty_text_parts:
  "joinEmpty (map part_text (filter (\<lambda>p. part_type p = ''text'') ps)) = spec_text_concat ps"
  by (induction ps) (simp_all add: joinEmpty_def)

lemma normaliseA2AParts_spec: "normaliseA2AParts ps = spec_normalize ps"
  by (simp add: normaliseA2AParts_def spec_normalize_def joinEmpty_text_parts Let_def)

lemma spec_text_concat_no_text:
  "spec_text_concat (filter (\<lambda>p. part_type p \<noteq> ''text'') ps) = []"
  by (induction ps) simp_all

lemma spec_text_concat_only_text:
  "spec_text_concat (filter (\<lambda>p. part_type p = ''text'') ps) = spec_text_concat ps"
  by (induction ps) simp_all

lemma spec_text_concat_append:
  "spec_text_concat (ps @ qs) = spec_text_concat ps @ spec_text_concat qs"
  by (induction ps) simp_all

lemma normaliseA2AParts_no_text:
  "filter (\<lambda>p. part_type p = ''text'') ps = [] \<Longrightarrow> normaliseA2AParts ps = []"
  by (simp add: normaliseA2AParts_def joinEmpty_def)

lemma normaliseA2AParts_all_text:
  "list_all (\<lambda>p. part_type p = ''text'' \<and> \<not> is_step_marker p) (normaliseA2AParts ps)"
  by (simp add: normaliseA2AParts_def Let_def is_step_marker_def)

lemma visible_content_normaliseA2AParts:
  "visible_content (normaliseA2AParts ps) = spec_text_concat ps"
  by (simp add: normaliseA2AParts_spec spec_normalize_def visible_content_def)

text \<open>
  Claim C1. For every raw part sequence, \<open>normaliseA2AParts\<close> discards the fragments whose
  type is not \<open>text\<close>, joins the text of the remaining fragments in emission order with no
  separator, and returns exactly one text part holding the joined text when it is
  non-empty and the empty sequence when it is empty; the empty input and an input without
  any text fragment both give the empty sequence.
\<close>

theorem normaliseA2AParts_correct:
  "normaliseA2AParts ps =
     (if spec_text_concat ps = [] then []
      else [\<lparr>part_type = ''text'', part_text = Some (spec_text_concat ps), part_rest = []\<rparr>])
   \<and> normaliseA2AParts (filter (\<lambda>p. part_type p = ''text'') ps) = normaliseA2AParts ps
   \<and> spec_text_concat (ps @ qs) = spec_text_concat ps @ spec_text_concat qs
   \<and> normaliseA2AParts [] = []
   \<and> normaliseA2AParts (filter (\<lambda>p. part_type p \<noteq> ''text'') ps) = []"
  by (simp add: normaliseA2AParts_spec spec_normalize_def spec_text_concat_no_text
      spec_text_concat_only_text spec_text_concat_append)

text \<open>
  Claim C8. \<open>normaliseA2AParts\<close> is a fixed point on its own output: normalising the
  result of a normalisation again changes nothing.
\<close>

theorem normaliseA2AParts_idempotent:
  "normaliseA2AParts (normaliseA2AParts x) = normaliseA2AParts x"
  by (simp add: normaliseA2AParts_spec spec_normalize_def)

section \<open>What the completion handler stores\<close>

text \<open>
  Claim C2, as amended. For the model \<open>a2a-model\<close>, the parts stored for each message the
  backend produced are text parts only, so no step marker is stored, and their visible
  content is the concatenation, in emission order, of the text fragments of the raw
  sequence. The content of reasoning fragments is not kept.
\<close>

theorem onFinish_a2a_stored_parts:
  "list_all2
     (\<lambda>row m. list_all (\<lambda>p. part_type p = ''text'' \<and> \<not> is_step_marker p) (row_parts row)
        \<and> visible_content (row_parts row) = spec_text_concat (msg_parts m)
        \<and> row_id row = msg_id m \<and> row_role row = msg_role m \<and> row_chatId row = cid)
     (drop (length (messages d)) (messages (onFinish ''a2a-model'' cid now ms d))) ms
   \<and> take (length (messages d)) (messages (onFinish ''a2a-model'' cid now ms d)) = messages d"
  by (simp add: onFinish_def saveMessages_def list_all2_map1 list_all2_same
      normaliseA2AParts_all_text visible_content_normaliseA2AParts)

text \<open>
  The claim as first stated fails on a raw sequence with a reasoning fragment: the stored
  turn shows \<open>a\<close>, the raw sequence shows \<open>ra\<close>.
\<close>

theorem onFinish_drops_reasoning_counterexample:
  "visible_content
     (row_parts (last (messages (onFinish ''a2a-model'' ''c1'' 3000
        [\<lparr>msg_id = ''m3'', msg_role = ''assistant'',
          msg_parts = [\<lparr>part_type = ''step-start'', part_text = None, part_rest = []\<rparr>,
                       \<lparr>part_type = ''reasoning'', part_text = Some ''r'', part_rest = []\<rparr>,
                       \<lparr>part_type = ''text'', part_text = Some ''a'', part_rest = []\<rparr>]\<rparr>]
        example_db)))) = ''a''
   \<and> visible_content
        [\<lparr>part_type = ''step-start'', part_text = None, part_rest = []\<rparr>,
         \<lparr>part_type = ''reasoning'', part_text = Some ''r'', part_rest = []\<rparr>,
         \<lparr>part_type = ''text'', part_text = Some ''a'', part_rest = []\<rparr>] = ''ra''
   \<and> visible_content
        (row_parts (last (messages (onFinish ''a2a-model'' ''c1'' 3000
           [\<lparr>msg_id = ''m3'', msg_role = ''assistant'',
             msg_parts = [\<lparr>part_type = ''step-start'', part_text = None, part_rest = []\<rparr>,
                          \<lparr>part_type = ''reasoning'', part_text = Some ''r'', part_rest = []\<rparr>,
                          \<lparr>part_type = ''text'', part_text = Some ''a'', part_rest = []\<rparr>]\<rparr>]
           example_db))))
       \<noteq> visible_content
           [\<lparr>part_type = ''step-start'', part_text = None, part_rest = []\<rparr>,
            \<lparr>part_type = ''reasoning'', part_text = Some ''r'', part_rest = []\<rparr>,
            \<lparr>part_type = ''text'', part_text = Some ''a'', part_rest = []\<rparr>]"
  by (simp add: onFinish_def saveMessages_def normaliseA2AParts_spec spec_normalize_def
      visible_content_def)

section \<open>The resumable stream context\<close>

lemma getStreamContext_throws:
  "getStreamContext (Throws (Some m)) None =
     (Inr None, None,
      [Call_createResumableStreamContext,
       if str_includes m ''REDIS_URL''
       then Console_log '' > Resumable streams are disabled due to missing REDIS_URL''
       else Console_error m])"
  by (simp add: getStreamContext_def)

lemma throwsError_returns_null:
  "throwsError out \<Longrightarrow> fst (getStreamContext out None) = Inr None"
  by (auto simp add: throwsError_def getStreamContext_def
      split: createOutcome.splits option.splits)

lemma getStreamContext_calls_throwing:
  "list_all throwsError outs \<Longrightarrow>
     fst (getStreamContext_calls outs None) = None
     \<and> creations (snd (getStreamContext_calls outs None)) = length outs"
proof (induction outs)
  case Nil
  show ?case by (simp add: creations_def)
next
  case (Cons out outs)
  from Cons.prems obtain m where m: "out = Throws (Some m)"
    by (auto simp add: throwsError_def split: createOutcome.splits option.splits)
  from Cons.prems have "list_all throwsError outs" by simp
  with Cons.IH m show ?case
    by (auto simp add: getStreamContext_throws creations_def split: prod.splits)
qed

lemma getStreamContext_calls_append:
  "getStreamContext_calls (xs @ ys) g =
     (case getStreamContext_calls xs g of
        (g', es) \<Rightarrow>
          (case getStreamContext_calls ys g' of (g'', es') \<Rightarrow> (g'', es @ es')))"
  by (induction xs arbitrary: g) (auto split: prod.splits)

text \<open>
  Claim C5, as amended. A creation that throws is not fatal: \<open>getStreamContext\<close> answers
  \<open>null\<close>. The failure is not cached: the module variable stays \<open>null\<close>, so each of any
  number of calls that fail makes its own creation attempt, and a later call whose
  creation succeeds answers the context. Only a created context is cached: with the
  variable set, no creation is attempted.
\<close>

theorem getStreamContext_failure_not_cached:
  assumes "list_all throwsError outs"
  shows "fst (getStreamContext_calls outs None) = None
     \<and> creations (snd (getStreamContext_calls outs None)) = length outs
     \<and> list_all (\<lambda>out. fst (getStreamContext out None) = Inr None) outs
     \<and> fst (getStreamContext_calls (outs @ [Returns c]) None) = Some c
     \<and> getStreamContext out (Some c) = (Inr (Some c), Some c, [])"
proof -
  note calls = getStreamContext_calls_throwing [OF assms]
  have "list_all (\<lambda>out. fst (getStreamContext out None) = Inr None) outs"
    using assms by (induction outs) (simp_all add: throwsError_returns_null)
  moreover have "fst (getStreamContext_calls (outs @ [Returns c]) None) = Some c"
    using calls
    by (cases "getStreamContext_calls outs None")
       (simp add: getStreamContext_calls_append getStreamContext_def)
  moreover have "getStreamContext out (Some c) = (Inr (Some c), Some c, [])"
    by (simp add: getStreamContext_def)
  ultimately show ?thesis using calls by simp
qed

theorem getStreamContext_failure_not_cached_witness:
  "list_all throwsError
     [Throws (Some ''REDIS_URL environment variable is not set''), Throws (Some ''timeout'')]
   \<and> getStreamContext_calls
       [Throws (Some ''REDIS_URL environment variable is not set''), Throws (Some ''timeout''),
        Returns (7::nat)] None
     = (Some 7,
        [Call_createResumableStreamContext,
         Console_log '' > Resumable streams are disabled due to missing REDIS_URL'',
         Call_createResumableStreamContext, Console_error ''timeout'',
         Call_createResumableStreamContext])
   \<and> creations (snd (getStreamContext_calls
       [Throws (Some ''REDIS_URL environment variable is not set''), Throws (Some ''timeout'')]
       (None :: nat option))) = 2"
proof -
  have a: "list_all throwsError
     [Throws (Some ''REDIS_URL environment variable is not set''), Throws (Some ''timeout'')]"
    by (simp add: throwsError_def)
  show ?thesis
    using getStreamContext_failure_not_cached [OF a, of "7::nat" "Returns 7"] a
    by (simp add: getStreamContext_def)
qed

text \<open>
  The claim as first stated fails: after a call whose creation failed for the missing
  \<open>REDIS_URL\<close>, the next call calls \<open>createResumableStreamContext\<close> again, and answers the
  context when that creation succeeds.
\<close>

theorem getStreamContext_retries_counterexample:
  "getStreamContext (Throws (Some ''REDIS_URL environment variable is not set''))
     (None :: nat option)
     = (Inr None, None,
        [Call_createResumableStreamContext,
         Console_log '' > Resumable streams are disabled due to missing REDIS_URL''])
   \<and> getStreamContext (Throws (Some ''REDIS_URL environment variable is not set''))
       (fst (snd (getStreamContext
          (Throws (Some ''REDIS_URL environment variable is not set'')) (None :: nat option))))
     = (Inr None, None,
        [Call_createResumableStreamContext,
         Console_log '' > Resumable streams are disabled due to missing REDIS_URL''])
   \<and> getStreamContext (Returns 7)
       (fst (snd (getStreamContext
          (Throws (Some ''REDIS_URL environment variable is not set'')) (None :: nat option))))
     = (Inr (Some 7), Some 7, [Call_createResumableStreamContext])"
  by (simp add: getStreamContext_def)

section \<open>The POST handler\<close>

lemma POST_stream_no_error_response:
  "POST_stream e b d g = (Inr (ErrorResponse c), w') \<Longrightarrow> False"
  by (simp add: POST_stream_def getStreamContext_def Let_def
      split: option.splits createOutcome.splits)

lemma POST_stream_no_ChatSDKError:
  "POST_stream e b d g = (Inl (ChatSDKError c), w') \<Longrightarrow> False"
  by (simp add: POST_stream_def getStreamContext_def Let_def
      split: option.splits createOutcome.splits)

lemma POST_stream_db:
  "messages (world_db (snd (POST_stream e b d g))) =
     messages d @
       [\<lparr>row_chatId = body_id b, row_id = msg_id (body_message b), row_role = ''user'',
         row_parts = (if body_selectedChatModel b = ''a2a-model''
                      then normaliseA2AParts (msg_parts (body_message b))
                      else msg_parts (body_message b)),
         row_attachments = [], row_createdAt = env_now e\<rparr>]"
  by (simp add: POST_stream_def Let_def saveMessages_def createStreamId_def split: prod.splits)

lemma POST_stream_plain:
  assumes "env_createResumableStreamContext e = Throws (Some m)"
  shows "fst (POST_stream e b d None)
       = Inr (StreamResponse (PlainStream (POST_createUIMessageStream e b d)))
     \<and> globalStreamContext (snd (POST_stream e b d None)) = None"
  using assms by (simp add: POST_stream_def getStreamContext_def Let_def)

lemma POST_stream_resumable:
  assumes "env_createResumableStreamContext e = Returns c"
  shows "fst (POST_stream e b d None)
       = Inr (StreamResponse
           (ResumableStream (env_generateUUID e) (POST_createUIMessageStream e b d)))"
  using assms by (simp add: POST_stream_def getStreamContext_def Let_def)

lemma admitted_POST_try:
  assumes "admitted e b u w"
  shows "POST_try e b w
     = POST_stream e b (resolvedDb e b u (world_db w)) (globalStreamContext w)"
  using assms
  by (auto simp add: admitted_def POST_try_def resolvedDb_def split: option.splits)

lemma admitted_POST_snd:
  assumes "admitted e b u w"
  shows "snd (POST e w)
     = snd (POST_stream e b (resolvedDb e b u (world_db w)) (globalStreamContext w))"
  using assms admitted_POST_try [OF assms]
  by (simp add: POST_def admitted_def split: prod.splits sum.splits exn.splits)

lemma admitted_POST_fst:
  assumes "admitted e b u w"
    and "fst (POST_stream e b (resolvedDb e b u (world_db w)) (globalStreamContext w)) = Inr r"
  shows "fst (POST e w) = r"
  using assms admitted_POST_try [OF assms(1)]
  by (auto simp add: POST_def admitted_def split: prod.splits sum.splits exn.splits)

lemma resolvedDb_messages: "messages (resolvedDb e b u d) = messages d"
  by (simp add: resolvedDb_def saveChat_def split: option.splits)

lemma POST_createUIMessageStream_create:
  "POST_createUIMessageStream (e\<lparr>env_createResumableStreamContext := x\<rparr>) b d
     = POST_createUIMessageStream e b d"
  by (simp add: POST_createUIMessageStream_def)

lemma admitted_create:
  "admitted (e\<lparr>env_createResumableStreamContext := x\<rparr>) b u w = admitted e b u w"
  by (simp add: admitted_def cong: option.case_cong)

lemma resolvedDb_create:
  "resolvedDb (e\<lparr>env_createResumableStreamContext := x\<rparr>) b u d = resolvedDb e b u d"
  by (simp add: resolvedDb_def cong: option.case_cong)

text \<open>
  Claim C3, as amended. For a caller with a parsed request, a session and an entitlement,
  \<open>POST\<close> answers \<open>rate_limit:chat\<close> if and only if the caller's message count of the
  trailing 24 hours exceeds the daily quota of the caller's tier. A caller whose count is
  exactly the quota, or below it, is not rejected by the rate gate; a caller whose count
  is above the quota is.
\<close>

theorem POST_rate_limit_iff:
  assumes "env_body e = Some b" and "sessionUser (env_session e) = Some u"
    and "env_entitlementsByUserType e (user_type u) = Some ent"
  shows "(fst (POST e w) = ErrorResponse rate_limit_chat)
     = (maxMessagesPerDay ent < getMessageCountByUserId (world_db w) (user_id u) 24 (env_now e))"
proof (cases "maxMessagesPerDay ent < getMessageCountByUserId (world_db w) (user_id u) 24 (env_now e)")
  case True
  with assms show ?thesis by (simp add: POST_def POST_try_def)
next
  case False
  have "fst (POST e w) \<noteq> ErrorResponse rate_limit_chat"
    using False assms
    by (auto simp add: POST_def POST_try_def
        split: prod.splits sum.splits option.splits if_splits exn.splits
        dest: POST_stream_no_error_response POST_stream_no_ChatSDKError)
  with False show ?thesis by simp
qed

theorem POST_rate_limit_iff_witness:
  "env_body (example_env alice ''chat-model'' []) =
     Some \<lparr>body_id = ''c1'',
           body_message = \<lparr>msg_id = ''m2'', msg_role = ''user'', msg_parts = []\<rparr>,
           body_selectedChatModel = ''chat-model'', body_selectedVisibilityType = ''private''\<rparr>
   \<and> sessionUser (env_session (example_env alice ''chat-model'' [])) = Some alice
   \<and> env_entitlementsByUserType (example_env alice ''chat-model'' []) (user_type alice)
       = Some \<lparr>maxMessagesPerDay = 1\<rparr>
   \<and> (fst (POST (example_env alice ''chat-model'' [])
               \<lparr>world_db = example_db, globalStreamContext = None\<rparr>)
        = ErrorResponse rate_limit_chat)
       = (maxMessagesPerDay \<lparr>maxMessagesPerDay = 1\<rparr>
          < getMessageCountByUserId example_db (user_id alice) 24 2000)"
proof -
  have a: "env_body (example_env alice ''chat-model'' []) =
     Some \<lparr>body_id = ''c1'',
           body_message = \<lparr>msg_id = ''m2'', msg_role = ''user'', msg_parts = []\<rparr>,
           body_selectedChatModel = ''chat-model'', body_selectedVisibilityType = ''private''\<rparr>"
    by (simp add: example_env_def)
  have b: "sessionUser (env_session (example_env alice ''chat-model'' [])) = Some alice"
    by (simp add: example_env_def sessionUser_def)
  have c: "env_entitlementsByUserType (example_env alice ''chat-model'' []) (user_type alice)
       = Some \<lparr>maxMessagesPerDay = 1\<rparr>"
    by (simp add: example_env_def alice_def)
  show ?thesis
    using POST_rate_limit_iff [OF a b c, of "\<lparr>world_db = example_db, globalStreamContext = None\<rparr>"]
      a b c
    by (simp add: example_env_def)
qed

text \<open>
  The claim as first stated fails for a caller exactly at the quota: with one message in
  the window and a quota of one, the request is answered with the stream.
\<close>

theorem POST_at_quota_counterexample:
  "getMessageCountByUserId example_db ''alice'' 24 2000 = 1
   \<and> env_entitlementsByUserType (example_env alice ''chat-model'' []) ''regular''
       = Some \<lparr>maxMessagesPerDay = 1\<rparr>
   \<and> fst (POST (example_env alice ''chat-model'' [])
            \<lparr>world_db = example_db, globalStreamContext = None\<rparr>)
       = StreamResponse (PlainStream
           \<lparr>stream_model = ''chat-model'',
            stream_messages =
              [\<lparr>msg_id = ''m1'', msg_role = ''user'',
                msg_parts = [\<lparr>part_type = ''text'', part_text = Some ''hi'', part_rest = []\<rparr>]\<rparr>,
               \<lparr>msg_id = ''m2'', msg_role = ''user'', msg_parts = []\<rparr>],
            stream_activeTools =
              [''getWeather'', ''createDocument'', ''updateDocument'', ''requestSuggestions''],
            stream_maxSteps = 5\<rparr>)
   \<and> fst (POST (example_env alice ''chat-model'' [])
            \<lparr>world_db = example_db, globalStreamContext = None\<rparr>)
       \<noteq> ErrorResponse rate_limit_chat"
  by (simp add: POST_def POST_try_def POST_stream_def POST_createUIMessageStream_def
      getStreamContext_def getMessageCountByUserId_def getChatById_def getMessagesByChatId_def
      saveMessages_def createStreamId_def sessionUser_def example_env_def example_db_def
      alice_def Let_def)

text \<open>
  Claim C6. For every admitted request handled while no resumable stream context exists
  and its creation throws (the configuration is absent), the handler raises nothing: the
  guarded block itself returns, the response is the plain stream, the module variable
  stays \<open>null\<close>, and the stream delivered is the very stream the same request gets wrapped
  as a resumable one when a context can be created.
\<close>

theorem POST_plain_stream_fallback:
  assumes "admitted e b u w"
    and "globalStreamContext w = None"
    and "env_createResumableStreamContext e = Throws (Some m)"
  shows "fst (POST_try e b w) = Inr (fst (POST e w))
     \<and> fst (POST e w)
         = StreamResponse
             (PlainStream (POST_createUIMessageStream e b (resolvedDb e b u (world_db w))))
     \<and> globalStreamContext (snd (POST e w)) = None
     \<and> fst (POST (e\<lparr>env_createResumableStreamContext := Returns c\<rparr>) w)
         = StreamResponse
             (ResumableStream (env_generateUUID e)
                (POST_createUIMessageStream e b (resolvedDb e b u (world_db w))))"
proof -
  let ?d = "resolvedDb e b u (world_db w)"
  let ?e = "e\<lparr>env_createResumableStreamContext := Returns c\<rparr>"
  note plain = POST_stream_plain [OF assms(3), of b ?d]
  have tr: "POST_try e b w = POST_stream e b ?d None"
    using admitted_POST_try [OF assms(1)] assms(2) by simp
  have 1: "fst (POST e w) = StreamResponse (PlainStream (POST_createUIMessageStream e b ?d))"
    using admitted_POST_fst [OF assms(1)] plain assms(2) by simp
  have 2: "globalStreamContext (snd (POST e w)) = None"
    using admitted_POST_snd [OF assms(1)] plain assms(2) by simp
  have 3: "fst (POST_try e b w) = Inr (fst (POST e w))"
    using plain tr 1 by simp
  have adm: "admitted ?e b u w"
    using assms(1) by (simp add: admitted_create)
  have "env_createResumableStreamContext ?e = Returns c" by simp
  from POST_stream_resumable [OF this, of b ?d]
  have res: "fst (POST_stream ?e b (resolvedDb ?e b u (world_db w)) (globalStreamContext w))
       = Inr (StreamResponse
           (ResumableStream (env_generateUUID e) (POST_createUIMessageStream e b ?d)))"
    using assms(2) by (simp add: POST_createUIMessageStream_create resolvedDb_create)
  have 4: "fst (POST ?e w)
         = StreamResponse
             (ResumableStream (env_generateUUID e) (POST_createUIMessageStream e b ?d))"
    by (rule admitted_POST_fst [OF adm res])
  from 1 2 3 4 show ?thesis by simp
qed

theorem POST_plain_stream_fallback_witness:
  "admitted (example_env alice ''chat-model'' [])
     \<lparr>body_id = ''c1'',
      body_message = \<lparr>msg_id = ''m2'', msg_role = ''user'', msg_parts = []\<rparr>,
      body_selectedChatModel = ''chat-model'', body_selectedVisibilityType = ''private''\<rparr>
     alice \<lparr>world_db = example_db, globalStreamContext = None\<rparr>
   \<and> env_createResumableStreamContext (example_env alice ''chat-model'' [])
       = Throws (Some ''REDIS_URL environment variable is not set'')
   \<and> fst (POST (example_env alice ''chat-model'' [])
            \<lparr>world_db = example_db, globalStreamContext = None\<rparr>)
       = StreamResponse (PlainStream
           \<lparr>stream_model = ''chat-model'',
            stream_messages =
              [\<lparr>msg_id = ''m1'', msg_role = ''user'',
                msg_parts = [\<lparr>part_type = ''text'', part_text = Some ''hi'', part_rest = []\<rparr>]\<rparr>,
               \<lparr>msg_id = ''m2'', msg_role = ''user'', msg_parts = []\<rparr>],
            stream_activeTools =
              [''getWeather'', ''createDocument'', ''updateDocument'', ''requestSuggestions''],
            stream_maxSteps = 5\<rparr>)"
proof -
  let ?b = "\<lparr>body_id = ''c1'',
      body_message = \<lparr>msg_id = ''m2'', msg_role = ''user'', msg_parts = []\<rparr>,
      body_selectedChatModel = ''chat-model'', body_selectedVisibilityType = ''private''\<rparr>"
  let ?w = "\<lparr>world_db = example_db, globalStreamContext = None\<rparr> :: unit world"
  have a: "admitted (example_env alice ''chat-model'' []) ?b alice ?w"
    by (simp add: admitted_def example_env_def example_db_def alice_def sessionUser_def
        getMessageCountByUserId_def getChatById_def)
  have b: "globalStreamContext ?w = None" by simp
  have c: "env_createResumableStreamContext (example_env alice ''chat-model'' [])
       = Throws (Some ''REDIS_URL environment variable is not set'')"
    by (simp add: example_env_def)
  show ?thesis
    using POST_plain_stream_fallback [OF a b c] a c
    by (simp add: POST_createUIMessageStream_def resolvedDb_def getChatById_def
        getMessagesByChatId_def example_env_def example_db_def)
qed

text \<open>
  Claim C10. For every admitted request, \<open>POST\<close> appends one user turn to the store whose
  parts are \<open>normaliseA2AParts\<close> of the message's parts when the selected model is
  \<open>a2a-model\<close> and the message's parts unchanged for any other model; so with
  \<open>a2a-model\<close> a message without any text fragment is stored with an empty parts sequence.
\<close>

theorem POST_user_turn_parts:
  assumes "admitted e b u w"
  shows "messages (world_db (snd (POST e w))) =
       messages (world_db w) @
         [\<lparr>row_chatId = body_id b, row_id = msg_id (body_message b), row_role = ''user'',
           row_parts = (if body_selectedChatModel b = ''a2a-model''
                        then normaliseA2AParts (msg_parts (body_message b))
                        else msg_parts (body_message b)),
           row_attachments = [], row_createdAt = env_now e\<rparr>]
     \<and> (body_selectedChatModel b = ''a2a-model''
          \<and> filter (\<lambda>p. part_type p = ''text'') (msg_parts (body_message b)) = []
        \<longrightarrow> row_parts (last (messages (world_db (snd (POST e w))))) = [])"
proof -
  have "messages (world_db (snd (POST e w))) =
       messages (world_db w) @
         [\<lparr>row_chatId = body_id b, row_id = msg_id (body_message b), row_role = ''user'',
           row_parts = (if body_selectedChatModel b = ''a2a-model''
                        then normaliseA2AParts (msg_parts (body_message b))
                        else msg_parts (body_message b)),
           row_attachments = [], row_createdAt = env_now e\<rparr>]"
    by (simp add: admitted_POST_snd [OF assms] POST_stream_db resolvedDb_messages)
  then show ?thesis by (simp add: normaliseA2AParts_no_text)
qed

theorem POST_user_turn_parts_witness:
  "admitted
     (example_env alice ''a2a-model''
        [\<lparr>part_type = ''file'', part_text = None, part_rest = [(''url'', ''u'')]\<rparr>])
     \<lparr>body_id = ''c1'',
      body_message = \<lparr>msg_id = ''m2'', msg_role = ''user'',
         msg_parts = [\<lparr>part_type = ''file'', part_text = None, part_rest = [(''url'', ''u'')]\<rparr>]\<rparr>,
      body_selectedChatModel = ''a2a-model'', body_selectedVisibilityType = ''private''\<rparr>
     alice \<lparr>world_db = example_db, globalStreamContext = None\<rparr>
   \<and> messages (world_db (snd (POST
        (example_env alice ''a2a-model''
           [\<lparr>part_type = ''file'', part_text = None, part_rest = [(''url'', ''u'')]\<rparr>])
        \<lparr>world_db = example_db, globalStreamContext = None\<rparr>)))
     = messages example_db @
         [\<lparr>row_chatId = ''c1'', row_id = ''m2'', row_role = ''user'', row_parts = [],
           row_attachments = [], row_createdAt = 2000\<rparr>]"
proof -
  let ?ps = "[\<lparr>part_type = ''file'', part_text = None, part_rest = [(''url'', ''u'')]\<rparr>]"
  let ?b = "\<lparr>body_id = ''c1'',
      body_message = \<lparr>msg_id = ''m2'', msg_role = ''user'', msg_parts = ?ps\<rparr>,
      body_selectedChatModel = ''a2a-model'', body_selectedVisibilityType = ''private''\<rparr>"
  let ?w = "\<lparr>world_db = example_db, globalStreamContext = None\<rparr> :: unit world"
  have a: "admitted (example_env alice ''a2a-model'' ?ps) ?b alice ?w"
    by (simp add: admitted_def example_env_def example_db_def alice_def sessionUser_def
        getMessageCountByUserId_def getChatById_def)
  show ?thesis
    using POST_user_turn_parts [OF a] a
    by (simp add: example_env_def normaliseA2AParts_def joinEmpty_def)
qed

section \<open>The DELETE handler\<close>

text \<open>
  Claim C7. For every conversation owned by one user and every delete request on it
  authenticated as a different user, the store is left as it was, conversation and turns
  included, and the handler answers \<open>forbidden:chat\<close> (the request names the conversation
  by its id; an empty id is answered \<open>bad_request:api\<close> before the lookup).
\<close>

theorem DELETE_forbidden_keeps_store:
  assumes "getChatById d i = Some c" and "sessionUser s = Some u"
    and "chat_userId c \<noteq> user_id u"
  shows "snd (DELETE (Some i) s d) = d
    \<and> (i \<noteq> [] \<longrightarrow> fst (DELETE (Some i) s d) = Inr (ErrorResponse forbidden_chat))"
  using assms by (simp add: DELETE_def)

theorem DELETE_forbidden_keeps_store_witness:
  "getChatById example_db ''c1''
     = Some \<lparr>chat_id = ''c1'', chat_userId = ''alice'', chat_title = ''Hello'',
             chat_visibility = ''private''\<rparr>
   \<and> sessionUser (Some \<lparr>session_user = Some bob\<rparr>) = Some bob
   \<and> ''alice'' \<noteq> user_id bob
   \<and> ''c1'' \<noteq> []
   \<and> DELETE (Some ''c1'') (Some \<lparr>session_user = Some bob\<rparr>) example_db
       = (Inr (ErrorResponse forbidden_chat), example_db)"
proof -
  have a: "getChatById example_db ''c1''
     = Some \<lparr>chat_id = ''c1'', chat_userId = ''alice'', chat_title = ''Hello'',
             chat_visibility = ''private''\<rparr>"
    by (simp add: getChatById_def example_db_def)
  have b: "sessionUser (Some \<lparr>session_user = Some bob\<rparr>) = Some bob"
    by (simp add: sessionUser_def)
  have c: "chat_userId \<lparr>chat_id = ''c1'', chat_userId = ''alice'', chat_title = ''Hello'',
             chat_visibility = ''private''\<rparr> \<noteq> user_id bob"
    by (simp add: bob_def)
  show ?thesis
    using DELETE_forbidden_keeps_store [OF a b c] a b c
    by (simp add: prod_eq_iff)
qed

text \<open>
  Claim C9. For every delete request of an authenticated caller whose id matches no stored
  conversation, the ownership check reads \<open>userId\<close> of the absent record: the handler
  raises a \<open>TypeError\<close> and gives no structured response, and the store is as it was.
\<close>

theorem DELETE_missing_chat_raises:
  assumes "i \<noteq> []" and "sessionUser s = Some u" and "getChatById d i = None"
  shows "DELETE (Some i) s d = (Inl TypeError, d)"
  using assms by (simp add: DELETE_def)

theorem DELETE_missing_chat_raises_witness:
  "''c2'' \<noteq> [] \<and> sessionUser (Some \<lparr>session_user = Some alice\<rparr>) = Some alice
   \<and> getChatById example_db ''c2'' = None
   \<and> DELETE (Some ''c2'') (Some \<lparr>session_user = Some alice\<rparr>) example_db
       = (Inl TypeError, example_db)"
proof -
  have a: "''c2'' \<noteq> []" by simp
  have b: "sessionUser (Some \<lparr>session_user = Some alice\<rparr>) = Some alice"
    by (simp add: sessionUser_def)
  have c: "getChatById example_db ''c2'' = None"
    by (simp add: getChatById_def example_db_def)
  show ?thesis
    using DELETE_missing_chat_raises [OF a b c] b c by simp
qed

end
